theory Spec2Isabelle
  imports Main "HOL-Library.Word"
begin

section \<open>Data model (types.ts)\<close>

text \<open>
  JavaScript numbers that the game uses are integers (points, stakes, counters), modelled
  as \<open>int\<close>. The only operation of the program that can leave the integers is the
  remainder by zero in \<open>getNextCaptain\<close>, whose result \<open>NaN\<close> is modelled as \<open>None\<close>.
  The field \<open>id\<close> of a player is written \<open>id'\<close> and the field \<open>value\<close> of a roll
  \<open>value'\<close>, since the plain names are taken. The decisions of a round, an object
  indexed by player id, are a map from ids to decisions; the ids are strings of hex digits
  and never name an inherited property of the object.
\<close>

record Player =
  id' :: string
  secret :: string
  nickname :: string
  points :: int
  ready :: bool
  connected :: bool

record RollResult =
  success :: bool
  value' :: int
  timestamp :: int

datatype decision = STAY | LEAVE

datatype room_status = LOBBY | PLAYING | FINISHED

datatype room_phase = WAIT_READY | CAPTAIN_TURN | DECISIONS | RESOLUTION

text \<open>The \<open>type\<close> of an action request; \<open>OTHER\<close> is any other string in the body.\<close>

datatype action_type = CAPTAIN_ROLL | DECIDE decision | OTHER string

text \<open>The payloads that the room passes to \<open>logEvent\<close>, one constructor for each call site.\<close>

datatype event_data =
    RoomCreatedData int int
  | PlayerJoinedData string string
  | PlayerReadyData string bool
  | GameStartedData int
  | CaptainRolledData string RollResult
  | PlayerDecisionData string decision
  | RoundResolvedData RollResult "string \<rightharpoonup> decision"
  | GameFinishedData string

record GameEvent =
  type' :: string
  timestamp' :: int
  data :: event_data

record RoomState =
  roomToken :: string
  status :: room_status
  stake :: int
  pot :: int
  maxPlayers :: int
  players :: "Player list"
  hostId :: string
  captainIndex :: "int option"
  phase :: room_phase
  step :: int
  maxSteps :: int
  winThreshold :: int
  lastRoll :: "RollResult option"
  decisions :: "string \<rightharpoonup> decision"
  history :: "GameEvent list"
  winnerId :: "string option"

section \<open>Game engine (game-engine.ts)\<close>

subsection \<open>GAME_CONFIG\<close>

definition SUCCESS_THRESHOLD :: int where "SUCCESS_THRESHOLD = 40"
definition SUCCESS_REWARD :: int where "SUCCESS_REWARD = 5"
definition FAILURE_PENALTY :: int where "FAILURE_PENALTY = 10"
definition WIN_THRESHOLD :: int where "WIN_THRESHOLD = 150"
definition MAX_STEPS :: int where "MAX_STEPS = 10"
definition MIN_STAKE :: int where "MIN_STAKE = 5"
definition MAX_STAKE :: int where "MAX_STAKE = 50"
definition MIN_PLAYERS :: int where "MIN_PLAYERS = 2"
definition MAX_PLAYERS :: int where "MAX_PLAYERS = 8"
definition STARTING_POINTS :: int where "STARTING_POINTS = 100"

lemmas GAME_CONFIG =
  SUCCESS_THRESHOLD_def SUCCESS_REWARD_def FAILURE_PENALTY_def WIN_THRESHOLD_def
  MAX_STEPS_def MIN_STAKE_def MAX_STAKE_def MIN_PLAYERS_def MAX_PLAYERS_def
  STARTING_POINTS_def

subsection \<open>Randomness and the roll\<close>

text \<open>
  \<open>rollChallenge\<close> reads one byte from \<open>crypto.getRandomValues\<close> and the clock; both are
  arguments of the model.
\<close>

definition rollChallenge :: "8 word \<Rightarrow> int \<Rightarrow> RollResult" where
  "rollChallenge byte now =
     (let value = int (unat byte mod 100) + 1
      in \<lparr> success = (value \<ge> SUCCESS_THRESHOLD), value' = value, timestamp = now \<rparr>)"

subsection \<open>Round resolution\<close>

definition resolveRound ::
  "Player list \<Rightarrow> (string \<rightharpoonup> decision) \<Rightarrow> RollResult \<Rightarrow> Player list" where
  "resolveRound ps ds roll =
     map (\<lambda>player.
            let decision = ds (id' player)
            in if decision = Some LEAVE then player
               else if decision = Some STAY then
                 (let pointChange = (if success roll then SUCCESS_REWARD else - FAILURE_PENALTY)
                  in player\<lparr> points := max 0 (points player + pointChange) \<rparr>)
               else player) ps"

subsection \<open>Win condition\<close>

text \<open>
  \<open>Array.prototype.sort\<close> is stable, and the comparator \<open>b.points - a.points\<close> orders by
  descending points: the stable insertion sort on the key \<open>- points\<close> computes the same
  list. \<open>sorted[0]?.id ?? null\<close> is \<open>null\<close> on the empty list.
\<close>

definition checkWinCondition :: "Player list \<Rightarrow> int \<Rightarrow> int \<Rightarrow> int \<Rightarrow> string option" where
  "checkWinCondition ps stp maxStps winThr =
     (case find (\<lambda>p. points p \<ge> winThr) ps of
        Some thresholdWinner \<Rightarrow> Some (id' thresholdWinner)
      | None \<Rightarrow>
          if stp \<ge> maxStps then
            (case sort_key (\<lambda>p. - points p) ps of
               [] \<Rightarrow> None
             | first # _ \<Rightarrow> Some (id' first))
          else
            (case filter (\<lambda>p. points p > 0) ps of
               [only] \<Rightarrow> Some (id' only)
             | _ \<Rightarrow> None))"

subsection \<open>Pot, stakes, captain rotation\<close>

definition distributePot :: "Player list \<Rightarrow> string \<Rightarrow> int \<Rightarrow> Player list" where
  "distributePot ps winner pt =
     map (\<lambda>player. if id' player = winner then player\<lparr> points := points player + pt \<rparr>
                    else player) ps"

definition collectStakes :: "Player list \<Rightarrow> int \<Rightarrow> Player list \<times> int" where
  "collectStakes ps stk =
     (let pt = stk * int (length ps);
          updatedPlayers = map (\<lambda>player. player\<lparr> points := points player - stk \<rparr>) ps
      in (updatedPlayers, pt))"

text \<open>
  The operator \<open>%\<close> of JavaScript: the remainder takes the sign of the dividend, and the
  remainder by zero is \<open>NaN\<close>.
\<close>

definition js_rem :: "int \<Rightarrow> int \<Rightarrow> int option" where
  "js_rem a b = (if b = 0 then None else Some (sgn a * (\<bar>a\<bar> mod \<bar>b\<bar>)))"

definition getNextCaptain :: "int \<Rightarrow> int \<Rightarrow> int option" where
  "getNextCaptain currentIndex playerCount = js_rem (currentIndex + 1) playerCount"

text \<open>\<open>captainAfter k i n\<close> applies \<open>getNextCaptain\<close> to \<open>i\<close>, \<open>k\<close> times in a row.\<close>

fun captainAfter :: "nat \<Rightarrow> int \<Rightarrow> int \<Rightarrow> int option" where
  "captainAfter 0 i n = Some i"
| "captainAfter (Suc k) i n =
     (case getNextCaptain i n of None \<Rightarrow> None | Some j \<Rightarrow> captainAfter k j n)"

subsection \<open>Validation, credentials, initial state\<close>

text \<open>On integers the test \<open>Number.isInteger\<close> of \<open>isValidStake\<close> always holds.\<close>

definition isValidStake :: "int \<Rightarrow> bool" where
  "isValidStake stk = (stk \<ge> MIN_STAKE \<and> stk \<le> MAX_STAKE)"

definition isValidPlayerCount :: "int \<Rightarrow> int \<Rightarrow> bool" where
  "isValidPlayerCount count mx = (count \<ge> MIN_PLAYERS \<and> count \<le> mx)"

definition hexDigit :: "nat \<Rightarrow> char" where
  "hexDigit n = ''0123456789abcdef'' ! (n mod 16)"

text \<open>\<open>b.toString(16).padStart(2, '0')\<close> for a byte.\<close>

definition byteHex :: "8 word \<Rightarrow> string" where
  "byteHex b = [hexDigit (unat b div 16), hexDigit (unat b mod 16)]"

text \<open>
  \<open>generatePlayerCredentials\<close> fills an array of 8 and an array of 16 random bytes; the
  two arrays are the arguments of the model.
\<close>

definition generatePlayerCredentials :: "8 word list \<Rightarrow> 8 word list \<Rightarrow> string \<times> string" where
  "generatePlayerCredentials idArray secretArray =
     (concat (map byteHex idArray), concat (map byteHex secretArray))"

definition createInitialState :: "string \<Rightarrow> int \<Rightarrow> int \<Rightarrow> RoomState" where
  "createInitialState token stk mx =
     \<lparr> roomToken = token, status = LOBBY, stake = stk, pot = 0, maxPlayers = mx,
       players = [], hostId = '''', captainIndex = Some 0, phase = WAIT_READY, step = 0,
       maxSteps = MAX_STEPS, winThreshold = WIN_THRESHOLD, lastRoll = None,
       decisions = Map.empty, history = [], winnerId = None \<rparr>"

definition allDecisionsMade :: "Player list \<Rightarrow> (string \<rightharpoonup> decision) \<Rightarrow> string \<Rightarrow> bool" where
  "allDecisionsMade ps ds captainId =
     (let nonCaptainPlayers = filter (\<lambda>p. id' p \<noteq> captainId \<and> connected p) ps
      in list_all (\<lambda>p. ds (id' p) \<noteq> None) nonCaptainPlayers)"

section \<open>Room actor (GameRoom)\<close>

text \<open>
  The actor owns one room state, \<open>None\<close> before the room is created; every handler takes
  the state and returns the response together with the state it leaves. One request is
  one atomic step. The readings of \<open>Date.now()\<close> within a request are the values
  \<open>clock 0\<close>, \<open>clock 1\<close>, ... of a function that the request receives; random bytes are
  arguments as well. Storage and broadcast carry the state out and do not change it, so
  they are not part of the model.
\<close>

datatype body =
    ErrorBody string
  | RoomTokenBody string
  | CredentialsBody string string
  | ReadyBody bool
  | SuccessBody

datatype response = Response (rstatus: nat) (rbody: body)

definition jsonResponse :: "body \<Rightarrow> nat \<Rightarrow> response" where
  "jsonResponse d st = Response st d"

text \<open>A header value counts as given when it is neither \<open>null\<close> nor the empty string.\<close>

definition given :: "string option \<Rightarrow> bool" where
  "given h = (case h of None \<Rightarrow> False | Some v \<Rightarrow> v \<noteq> [])"

definition logEvent :: "string \<Rightarrow> event_data \<Rightarrow> int \<Rightarrow> RoomState \<Rightarrow> RoomState" where
  "logEvent ty d now st =
     (let h = history st @ [\<lparr> type' = ty, timestamp' = now, data = d \<rparr>]
      in st\<lparr> history := (if length h > 100 then drop (length h - 50) h else h) \<rparr>)"

definition validatePlayer :: "RoomState \<Rightarrow> string \<Rightarrow> string \<Rightarrow> Player option" where
  "validatePlayer st playerId playerSecret =
     (case find (\<lambda>p. id' p = playerId) (players st) of
        None \<Rightarrow> None
      | Some player \<Rightarrow> if secret player \<noteq> playerSecret then None else Some player)"

text \<open>
  The handlers write to the player object that \<open>find\<close> returned, which is the first
  element of the list that matches: \<open>updateFirst\<close> rewrites that element.
\<close>

fun updateFirst :: "('a \<Rightarrow> bool) \<Rightarrow> ('a \<Rightarrow> 'a) \<Rightarrow> 'a list \<Rightarrow> 'a list" where
  "updateFirst P f [] = []"
| "updateFirst P f (x # xs) = (if P x then f x # xs else x # updateFirst P f xs)"

text \<open>
  Nicknames are modelled as ASCII strings: \<open>trim\<close> removes the ASCII white space at both
  ends and \<open>toLowerCase\<close> maps the letters A to Z.
\<close>

definition isWhiteSpace :: "char \<Rightarrow> bool" where
  "isWhiteSpace c = (c \<in> set [CHR '' '', CHR 0x09, CHR 0x0A, CHR 0x0B, CHR 0x0C, CHR 0x0D])"

definition trim :: "string \<Rightarrow> string" where
  "trim s = rev (dropWhile isWhiteSpace (rev (dropWhile isWhiteSpace s)))"

definition lowerChar :: "char \<Rightarrow> char" where
  "lowerChar c =
     (case map_of (zip ''ABCDEFGHIJKLMNOPQRSTUVWXYZ'' ''abcdefghijklmnopqrstuvwxyz'') c of
        None \<Rightarrow> c
      | Some l \<Rightarrow> l)"

definition toLowerCase :: "string \<Rightarrow> string" where
  "toLowerCase s = map lowerChar s"

subsection \<open>create, join, ready, start\<close>

definition handleCreate ::
  "(nat \<Rightarrow> int) \<Rightarrow> int \<Rightarrow> int \<Rightarrow> string \<Rightarrow> RoomState option \<Rightarrow> response \<times> RoomState option" where
  "handleCreate clock stk mx token s =
     (case s of
        Some existingState \<Rightarrow> (jsonResponse (ErrorBody ''Room already exists'') 400, s)
      | None \<Rightarrow>
          if stk = 0 \<or> stk < MIN_STAKE \<or> stk > MAX_STAKE then
            (jsonResponse (ErrorBody ''Invalid stake'') 400, s)
          else if mx = 0 \<or> mx < MIN_PLAYERS \<or> mx > MAX_PLAYERS then
            (jsonResponse (ErrorBody ''Invalid maxPlayers'') 400, s)
          else
            (jsonResponse (RoomTokenBody token) 200,
             Some (logEvent ''ROOM_CREATED'' (RoomCreatedData stk mx) (clock 0)
                     (createInitialState token stk mx))))"

definition handleJoin ::
  "(nat \<Rightarrow> int) \<Rightarrow> string \<Rightarrow> 8 word list \<Rightarrow> 8 word list \<Rightarrow> RoomState option
     \<Rightarrow> response \<times> RoomState option" where
  "handleJoin clock nick idArray secretArray s =
     (case s of
        None \<Rightarrow> (jsonResponse (ErrorBody ''Room not found'') 404, s)
      | Some st \<Rightarrow>
          if status st \<noteq> LOBBY then
            (jsonResponse (ErrorBody ''Game already started'') 400, s)
          else if int (length (players st)) \<ge> maxPlayers st then
            (jsonResponse (ErrorBody ''Room is full'') 400, s)
          else if nick = [] \<or> length (trim nick) < 1 \<or> length (trim nick) > 20 then
            (jsonResponse (ErrorBody ''Invalid nickname'') 400, s)
          else if list_ex (\<lambda>p. toLowerCase (nickname p) = toLowerCase (trim nick)) (players st) then
            (jsonResponse (ErrorBody ''Nickname already taken'') 400, s)
          else
            (let credentials = generatePlayerCredentials idArray secretArray;
                 player = \<lparr> id' = fst credentials, secret = snd credentials,
                            nickname = trim nick, points = STARTING_POINTS,
                            ready = False, connected = False \<rparr>;
                 st1 = st\<lparr> players := players st @ [player] \<rparr>;
                 st2 = (if length (players st1) = 1 then st1\<lparr> hostId := id' player \<rparr> else st1);
                 st3 = logEvent ''PLAYER_JOINED'' (PlayerJoinedData (id' player) (nickname player))
                         (clock 0) st2
             in (jsonResponse (CredentialsBody (fst credentials) (snd credentials)) 200,
                 Some st3)))"

definition handleReady ::
  "(nat \<Rightarrow> int) \<Rightarrow> string option \<Rightarrow> string option \<Rightarrow> RoomState option
     \<Rightarrow> response \<times> RoomState option" where
  "handleReady clock playerId playerSecret s =
     (case s of
        None \<Rightarrow> (jsonResponse (ErrorBody ''Room not found'') 404, s)
      | Some st \<Rightarrow>
          if status st \<noteq> LOBBY then
            (jsonResponse (ErrorBody ''Game already started'') 400, s)
          else if \<not> given playerId \<or> \<not> given playerSecret then
            (jsonResponse (ErrorBody ''Missing credentials'') 401, s)
          else
            (case validatePlayer st (the playerId) (the playerSecret) of
               None \<Rightarrow> (jsonResponse (ErrorBody ''Invalid credentials'') 401, s)
             | Some player \<Rightarrow>
                 (let st1 = st\<lparr> players := updateFirst (\<lambda>p. id' p = the playerId)
                                               (\<lambda>p. p\<lparr> ready := \<not> ready p \<rparr>) (players st) \<rparr>;
                      st2 = logEvent ''PLAYER_READY''
                              (PlayerReadyData (the playerId) (\<not> ready player)) (clock 0) st1
                  in (jsonResponse (ReadyBody (\<not> ready player)) 200, Some st2))))"

definition handleStart ::
  "(nat \<Rightarrow> int) \<Rightarrow> string option \<Rightarrow> string option \<Rightarrow> RoomState option
     \<Rightarrow> response \<times> RoomState option" where
  "handleStart clock playerId playerSecret s =
     (case s of
        None \<Rightarrow> (jsonResponse (ErrorBody ''Room not found'') 404, s)
      | Some st \<Rightarrow>
          if status st \<noteq> LOBBY then
            (jsonResponse (ErrorBody ''Game already started'') 400, s)
          else if \<not> given playerId \<or> \<not> given playerSecret then
            (jsonResponse (ErrorBody ''Missing credentials'') 401, s)
          else if the playerId \<noteq> hostId st then
            (jsonResponse (ErrorBody ''Only host can start the game'') 403, s)
          else
            (case validatePlayer st (the playerId) (the playerSecret) of
               None \<Rightarrow> (jsonResponse (ErrorBody ''Invalid credentials'') 401, s)
             | Some player \<Rightarrow>
                 if int (length (players st)) < MIN_PLAYERS then
                   (jsonResponse (ErrorBody ''Not enough players'') 400, s)
                 else if \<not> list_all ready (players st) then
                   (jsonResponse (ErrorBody ''Not all players are ready'') 400, s)
                 else
                   (let result = collectStakes (players st) (stake st);
                        st1 = st\<lparr> players := fst result, pot := snd result, status := PLAYING,
                                  phase := CAPTAIN_TURN, step := 1, captainIndex := Some 0,
                                  decisions := Map.empty \<rparr>;
                        st2 = logEvent ''GAME_STARTED'' (GameStartedData (pot st1)) (clock 0) st1
                    in (jsonResponse SuccessBody 200, Some st2))))"

subsection \<open>Round resolution and actions\<close>

text \<open>
  \<open>if (winnerId)\<close> holds for a string that is neither \<open>null\<close> nor empty. A \<open>NaN\<close> captain
  index stays \<open>NaN\<close> under \<open>getNextCaptain\<close>.
\<close>

definition resolveAndAdvance :: "(nat \<Rightarrow> int) \<Rightarrow> RoomState option \<Rightarrow> RoomState option" where
  "resolveAndAdvance clock s =
     (case s of
        None \<Rightarrow> None
      | Some st \<Rightarrow>
          (case lastRoll st of
             None \<Rightarrow> Some st
           | Some roll \<Rightarrow>
               (let st1 = st\<lparr> players := resolveRound (players st) (decisions st) roll \<rparr>;
                    st2 = logEvent ''ROUND_RESOLVED'' (RoundResolvedData roll (decisions st1))
                            (clock 0) st1;
                    winner = checkWinCondition (players st2) (step st2) (maxSteps st2)
                               (winThreshold st2);
                    nextRound = st2\<lparr> step := step st2 + 1,
                                     captainIndex :=
                                       (case captainIndex st2 of
                                          None \<Rightarrow> None
                                        | Some i \<Rightarrow> getNextCaptain i (int (length (players st2)))),
                                     phase := CAPTAIN_TURN,
                                     decisions := Map.empty,
                                     lastRoll := None \<rparr>
                in (case winner of
                      None \<Rightarrow> Some nextRound
                    | Some w \<Rightarrow>
                        if w = [] then Some nextRound
                        else
                          Some (logEvent ''GAME_FINISHED'' (GameFinishedData w) (clock 1)
                                  (st2\<lparr> players := distributePot (players st2) w (pot st2),
                                        status := FINISHED,
                                        winnerId := Some w,
                                        pot := 0 \<rparr>))))))"

text \<open>
  \<open>state.players[state.captainIndex]\<close> is \<open>undefined\<close> outside the list; reading
  \<open>captain.id\<close> then throws and the request fails without an answer of the handler
  (\<open>fetch\<close> returns the promise of the handler without awaiting it, so its \<open>catch\<close>
  does not see the throw). \<open>internalError\<close> stands for this outcome; no handler has
  written to the state at that point.
\<close>

definition captainOf :: "RoomState \<Rightarrow> Player option" where
  "captainOf st =
     (case captainIndex st of
        None \<Rightarrow> None
      | Some i \<Rightarrow> if 0 \<le> i \<and> i < int (length (players st)) then Some (players st ! nat i)
                  else None)"

definition internalError :: response where
  "internalError = jsonResponse (ErrorBody ''Internal Server Error'') 500"

definition handleAction ::
  "(nat \<Rightarrow> int) \<Rightarrow> string option \<Rightarrow> string option \<Rightarrow> action_type \<Rightarrow> 8 word
     \<Rightarrow> RoomState option \<Rightarrow> response \<times> RoomState option" where
  "handleAction clock playerId playerSecret ty byte s =
     (case s of
        None \<Rightarrow> (jsonResponse (ErrorBody ''Room not found'') 404, s)
      | Some st \<Rightarrow>
          if status st \<noteq> PLAYING then
            (jsonResponse (ErrorBody ''Game not in progress'') 400, s)
          else if \<not> given playerId \<or> \<not> given playerSecret then
            (jsonResponse (ErrorBody ''Missing credentials'') 401, s)
          else
            (case validatePlayer st (the playerId) (the playerSecret) of
               None \<Rightarrow> (jsonResponse (ErrorBody ''Invalid credentials'') 401, s)
             | Some player \<Rightarrow>
                 (case ty of
                    CAPTAIN_ROLL \<Rightarrow>
                      if phase st \<noteq> CAPTAIN_TURN then
                        (jsonResponse (ErrorBody ''Not captain turn phase'') 400, s)
                      else
                        (case captainOf st of
                           None \<Rightarrow> (internalError, s)
                         | Some captain \<Rightarrow>
                             if the playerId \<noteq> id' captain then
                               (jsonResponse (ErrorBody ''Only captain can roll'') 403, s)
                             else
                               (let roll = rollChallenge byte (clock 0);
                                    st1 = st\<lparr> lastRoll := Some roll,
                                              decisions := [id' captain \<mapsto> STAY],
                                              phase := DECISIONS \<rparr>;
                                    st2 = logEvent ''CAPTAIN_ROLLED''
                                            (CaptainRolledData (id' captain) roll) (clock 1) st1
                                in if length (filter (\<lambda>p. connected p \<or> points p > 0)
                                                (players st2)) = 1
                                   then (jsonResponse SuccessBody 200,
                                         resolveAndAdvance (\<lambda>k. clock (k + 2)) (Some st2))
                                   else (jsonResponse SuccessBody 200, Some st2)))
                  | DECIDE d \<Rightarrow>
                      if phase st \<noteq> DECISIONS then
                        (jsonResponse (ErrorBody ''Not decision phase'') 400, s)
                      else
                        (case captainOf st of
                           None \<Rightarrow> (internalError, s)
                         | Some captain \<Rightarrow>
                             if the playerId = id' captain then
                               (jsonResponse (ErrorBody ''Captain cannot change decision'') 400, s)
                             else if decisions st (the playerId) \<noteq> None then
                               (jsonResponse (ErrorBody ''Already made decision'') 400, s)
                             else
                               (let st1 = st\<lparr> decisions := (decisions st)(the playerId \<mapsto> d) \<rparr>;
                                    st2 = logEvent ''PLAYER_DECISION''
                                            (PlayerDecisionData (the playerId) d) (clock 0) st1
                                in if allDecisionsMade (players st2) (decisions st2) (id' captain)
                                   then (jsonResponse SuccessBody 200,
                                         resolveAndAdvance (\<lambda>k. clock (k + 1)) (Some st2))
                                   else (jsonResponse SuccessBody 200, Some st2)))
                  | OTHER other \<Rightarrow>
                      (jsonResponse (ErrorBody ''Invalid action type'') 400, s))))"

subsection \<open>Connections\<close>

text \<open>
  Opening a socket with valid credentials marks the player connected; closing the socket
  of a player marks the player disconnected. The registry of sockets is not modelled: a
  close may arrive for any player id, which allows every sequence of events of the
  program and some more.
\<close>

definition handleWebSocket ::
  "string option \<Rightarrow> string option \<Rightarrow> RoomState option \<Rightarrow> RoomState option" where
  "handleWebSocket playerId playerSecret s =
     (case s of
        None \<Rightarrow> None
      | Some st \<Rightarrow>
          if given playerId \<and> given playerSecret then
            (case validatePlayer st (the playerId) (the playerSecret) of
               None \<Rightarrow> Some st
             | Some player \<Rightarrow>
                 Some (st\<lparr> players := updateFirst (\<lambda>p. id' p = the playerId)
                                         (\<lambda>p. p\<lparr> connected := True \<rparr>) (players st) \<rparr>))
          else Some st)"

definition socketClosed :: "string \<Rightarrow> RoomState option \<Rightarrow> RoomState option" where
  "socketClosed pid s =
     (case s of
        None \<Rightarrow> None
      | Some st \<Rightarrow>
          Some (st\<lparr> players := updateFirst (\<lambda>p. id' p = pid)
                                  (\<lambda>p. p\<lparr> connected := False \<rparr>) (players st) \<rparr>))"

subsection \<open>Requests and reachable states\<close>

datatype request =
    Create int int string
  | Join string "8 word list" "8 word list"
  | Ready "string option" "string option"
  | Start "string option" "string option"
  | Action "string option" "string option" action_type "8 word"
  | Resolve
  | Connect "string option" "string option"
  | Close string

text \<open>
  \<open>Resolve\<close> is the internal \<open>resolveAndAdvance\<close> taken as a step of its own; the program
  only runs it inside an action.
\<close>

fun roomStep :: "(nat \<Rightarrow> int) \<Rightarrow> request \<Rightarrow> RoomState option \<Rightarrow> RoomState option" where
  "roomStep clock (Create stk mx token) s = snd (handleCreate clock stk mx token s)"
| "roomStep clock (Join nick idArray secretArray) s = snd (handleJoin clock nick idArray secretArray s)"
| "roomStep clock (Ready pid sec) s = snd (handleReady clock pid sec s)"
| "roomStep clock (Start pid sec) s = snd (handleStart clock pid sec s)"
| "roomStep clock (Action pid sec ty byte) s = snd (handleAction clock pid sec ty byte s)"
| "roomStep clock Resolve s = resolveAndAdvance clock s"
| "roomStep clock (Connect pid sec) s = handleWebSocket pid sec s"
| "roomStep clock (Close pid) s = socketClosed pid s"

inductive reachable :: "RoomState option \<Rightarrow> bool" where
  initial: "reachable None"
| step: "reachable s \<Longrightarrow> reachable (roomStep clock req s)"

fun runRequests :: "(nat \<Rightarrow> int) \<Rightarrow> request list \<Rightarrow> RoomState option \<Rightarrow> RoomState option" where
  "runRequests clock [] s = s"
| "runRequests clock (req # reqs) s = runRequests clock reqs (roomStep clock req s)"

section \<open>Vocabulary of the properties\<close>

text \<open>
  \<open>firstWhere P xs i\<close>: \<open>i\<close> is the first index of \<open>xs\<close> whose element satisfies \<open>P\<close>.
  \<open>onlyWhere P xs i\<close>: \<open>i\<close> is the only such index.
\<close>

definition firstWhere :: "('a \<Rightarrow> bool) \<Rightarrow> 'a list \<Rightarrow> nat \<Rightarrow> bool" where
  "firstWhere P xs i = (i < length xs \<and> P (xs ! i) \<and> (\<forall>j<i. \<not> P (xs ! j)))"

definition onlyWhere :: "('a \<Rightarrow> bool) \<Rightarrow> 'a list \<Rightarrow> nat \<Rightarrow> bool" where
  "onlyWhere P xs i = (i < length xs \<and> P (xs ! i) \<and> (\<forall>j<length xs. j \<noteq> i \<longrightarrow> \<not> P (xs ! j)))"

text \<open>Players of the concrete examples, shaped as in the unit tests of the engine.\<close>

definition mkPlayer :: "string \<Rightarrow> int \<Rightarrow> Player" where
  "mkPlayer i pts = \<lparr> id' = i, secret = ''s'', nickname = i, points = pts,
                      ready = True, connected = True \<rparr>"

definition negPlayer :: Player where
  "negPlayer = \<lparr> id' = ''p1'', secret = ''s1'', nickname = ''Player1'', points = - 5,
                 ready = True, connected = True \<rparr>"

text \<open>
  The invariant of the room: the stake is within its bounds, the pot and the points of
  every player are not negative, in the lobby there is no roll and every player holds the
  starting points, and a winner is recorded exactly in the status FINISHED.
\<close>

definition roomInv :: "RoomState \<Rightarrow> bool" where
  "roomInv st =
     (MIN_STAKE \<le> stake st \<and> stake st \<le> MAX_STAKE \<and> 0 \<le> pot st \<and>
      list_all (\<lambda>p. 0 \<le> points p) (players st) \<and>
      (status st = LOBBY \<longrightarrow>
         lastRoll st = None \<and> list_all (\<lambda>p. points p = STARTING_POINTS) (players st)) \<and>
      ((winnerId st \<noteq> None) = (status st = FINISHED)))"

definition roomInvOpt :: "RoomState option \<Rightarrow> bool" where
  "roomInvOpt s = (case s of None \<Rightarrow> True | Some st \<Rightarrow> roomInv st)"

text \<open>
  A concrete game of two players. The clock counts the readings within a request, and the
  random byte arrays are fixed. \<open>lobbyRequests\<close> creates the room and brings Alice and
  Bob to the point where both are ready; \<open>decisionRequests\<close> starts the game and lets
  Alice, the first captain, roll; \<open>gameRequests\<close> plays six rounds of failed rolls in
  which Alice always stays and Bob stays only as captain, until Alice has no points left.
\<close>

definition clock0 :: "nat \<Rightarrow> int" where
  "clock0 k = int k"

definition aliceIdArray :: "8 word list" where
  "aliceIdArray = [0xa1, 0x00, 0x17, 0x2b, 0x3c, 0x4d, 0x5e, 0x6f]"
definition aliceSecretArray :: "8 word list" where
  "aliceSecretArray = [0x01, 0x02, 0x03, 0x04, 0x05, 0x06, 0x07, 0x08,
                       0x09, 0x0a, 0x0b, 0x0c, 0x0d, 0x0e, 0x0f, 0x10]"
definition bobIdArray :: "8 word list" where
  "bobIdArray = [0xb0, 0xb1, 0xff, 0x2b, 0x3c, 0x4d, 0x5e, 0x6f]"
definition bobSecretArray :: "8 word list" where
  "bobSecretArray = [0xf1, 0xf2, 0xf3, 0xf4, 0xf5, 0xf6, 0xf7, 0xf8,
                     0xf9, 0xfa, 0xfb, 0xfc, 0xfd, 0xfe, 0xff, 0x00]"

definition aliceId :: string where "aliceId = fst (generatePlayerCredentials aliceIdArray aliceSecretArray)"
definition aliceSecret :: string where "aliceSecret = snd (generatePlayerCredentials aliceIdArray aliceSecretArray)"
definition bobId :: string where "bobId = fst (generatePlayerCredentials bobIdArray bobSecretArray)"
definition bobSecret :: string where "bobSecret = snd (generatePlayerCredentials bobIdArray bobSecretArray)"

definition lobbyRequests :: "int \<Rightarrow> request list" where
  "lobbyRequests stk =
     [Create stk 4 ''1A2B3C4D'',
      Join ''Alice'' aliceIdArray aliceSecretArray,
      Join ''Bob'' bobIdArray bobSecretArray,
      Connect (Some aliceId) (Some aliceSecret),
      Connect (Some bobId) (Some bobSecret),
      Ready (Some aliceId) (Some aliceSecret),
      Ready (Some bobId) (Some bobSecret)]"

definition aliceRound :: "request list" where
  "aliceRound = [Action (Some aliceId) (Some aliceSecret) CAPTAIN_ROLL 0,
                 Action (Some bobId) (Some bobSecret) (DECIDE LEAVE) 0]"

definition bobRound :: "request list" where
  "bobRound = [Action (Some bobId) (Some bobSecret) CAPTAIN_ROLL 0,
               Action (Some aliceId) (Some aliceSecret) (DECIDE STAY) 0]"

definition gameRequests :: "request list" where
  "gameRequests = lobbyRequests 45 @ [Start (Some aliceId) (Some aliceSecret)]
                    @ aliceRound @ bobRound @ aliceRound @ bobRound @ aliceRound @ bobRound"

definition decisionRequests :: "request list" where
  "decisionRequests = lobbyRequests 10 @ [Start (Some aliceId) (Some aliceSecret),
                        Action (Some aliceId) (Some aliceSecret) CAPTAIN_ROLL 0]"

section \<open>Properties of the game engine\<close>

subsection \<open>Lists: first match, only match, head of the stable sort\<close>

lemma find_firstWhere:
  "find P xs = Some x \<longleftrightarrow> (\<exists>i. firstWhere P xs i \<and> x = xs ! i)"
  unfolding firstWhere_def find_Some_iff by blast

lemma firstWhere_unique: "firstWhere P xs i \<Longrightarrow> firstWhere P xs k \<Longrightarrow> i = k"
  unfolding firstWhere_def by (meson linorder_neqE_nat)

lemma filter_single_onlyWhere:
  "filter P xs = [x] \<longleftrightarrow> (\<exists>i. onlyWhere P xs i \<and> x = xs ! i)"
proof
  assume "filter P xs = [x]"
  then obtain us vs where xs: "xs = us @ x # vs" and us: "\<forall>u\<in>set us. \<not> P u"
    and px: "P x" and vs: "[] = filter P vs"
    unfolding filter_eq_Cons_iff by blast
  from vs have vs': "\<forall>v\<in>set vs. \<not> P v" by (metis filter_empty_conv)
  have "onlyWhere P xs (length us)"
    unfolding onlyWhere_def
  proof (intro conjI allI impI)
    show "length us < length xs" by (simp add: xs)
    show "P (xs ! length us)" by (simp add: xs px)
    fix j assume j: "j < length xs" "j \<noteq> length us"
    show "\<not> P (xs ! j)"
    proof (cases "j < length us")
      case True
      then show ?thesis using us by (simp add: xs nth_append)
    next
      case False
      with j have "length us < j" by simp
      then obtain k where k: "j = length us + Suc k" using less_iff_Suc_add by auto
      with j have "k < length vs" by (simp add: xs)
      then show ?thesis using vs' k by (simp add: xs nth_append)
    qed
  qed
  moreover have "x = xs ! length us" by (simp add: xs)
  ultimately show "\<exists>i. onlyWhere P xs i \<and> x = xs ! i" by blast
next
  assume "\<exists>i. onlyWhere P xs i \<and> x = xs ! i"
  then obtain i where i: "i < length xs" "P (xs ! i)"
    and oth: "\<forall>j<length xs. j \<noteq> i \<longrightarrow> \<not> P (xs ! j)" and x: "x = xs ! i"
    unfolding onlyWhere_def by blast
  have split: "xs = take i xs @ xs ! i # drop (Suc i) xs"
    using i(1) by (rule id_take_nth_drop)
  have a: "filter P (take i xs) = []"
    unfolding filter_empty_conv
  proof
    fix u assume "u \<in> set (take i xs)"
    then obtain j where "j < i" "u = xs ! j"
      using i(1) by (auto simp: in_set_conv_nth)
    then show "\<not> P u" using oth i(1) by simp
  qed
  have b: "filter P (drop (Suc i) xs) = []"
    unfolding filter_empty_conv
  proof
    fix u assume "u \<in> set (drop (Suc i) xs)"
    then obtain j where "j < length xs - Suc i" "u = xs ! (Suc i + j)"
      by (auto simp: in_set_conv_nth)
    then show "\<not> P u" using oth by simp
  qed
  have "filter P xs = filter P (take i xs @ xs ! i # drop (Suc i) xs)"
    using split by simp
  also have "\<dots> = [xs ! i]" using a b i(2) by simp
  finally show "filter P xs = [x]" using x by simp
qed

lemma hd_sort_desc_Cons:
  assumes "xs \<noteq> []"
  shows "hd (sort_key (\<lambda>p. - points p) (x # xs)) =
           (if points (hd (sort_key (\<lambda>p. - points p) xs)) \<le> points x then x
            else hd (sort_key (\<lambda>p. - points p) xs))"
proof -
  obtain y ys where xs: "xs = y # ys" using assms by (cases xs) simp_all
  have "sort_key (\<lambda>p. - points p) xs \<noteq> []"
    unfolding xs by (simp add: insort_not_Nil)
  then obtain a t where s: "sort_key (\<lambda>p. - points p) xs = a # t"
    by (cases "sort_key (\<lambda>p. - points p) xs") simp_all
  show ?thesis by (simp add: s)
qed

lemma sort_desc_head:
  "ps \<noteq> [] \<Longrightarrow>
    \<exists>i. firstWhere (\<lambda>p. \<forall>q\<in>set ps. points q \<le> points p) ps i
       \<and> hd (sort_key (\<lambda>p. - points p) ps) = ps ! i"
proof (induction ps)
  case Nil
  then show ?case by simp
next
  case (Cons x xs)
  show ?case
  proof (cases "xs = []")
    case True
    have "firstWhere (\<lambda>p. \<forall>q\<in>set [x]. points q \<le> points p) [x] 0"
      by (simp add: firstWhere_def)
    moreover have "hd (sort_key (\<lambda>p. - points p) [x]) = [x] ! 0" by simp
    ultimately show ?thesis unfolding True by (rule_tac x = 0 in exI) (rule conjI)
  next
    case False
    from Cons.IH[OF False] obtain i where
      fw: "firstWhere (\<lambda>p. \<forall>q\<in>set xs. points q \<le> points p) xs i"
      and h: "hd (sort_key (\<lambda>p. - points p) xs) = xs ! i" by blast
    have il: "i < length xs" and mx: "\<forall>q\<in>set xs. points q \<le> points (xs ! i)"
      and fst: "\<forall>j<i. \<not> (\<forall>q\<in>set xs. points q \<le> points (xs ! j))"
      using fw unfolding firstWhere_def by simp_all
    have hdnew: "hd (sort_key (\<lambda>p. - points p) (x # xs)) =
                   (if points (xs ! i) \<le> points x then x else xs ! i)"
      using hd_sort_desc_Cons[OF False, of x] h by simp
    show ?thesis
    proof (cases "points (xs ! i) \<le> points x")
      case True
      have "\<forall>q\<in>set (x # xs). points q \<le> points x"
        using True mx by fastforce
      then have "firstWhere (\<lambda>p. \<forall>q\<in>set (x # xs). points q \<le> points p) (x # xs) 0"
        by (simp add: firstWhere_def)
      moreover have "hd (sort_key (\<lambda>p. - points p) (x # xs)) = (x # xs) ! 0"
        using hdnew True by simp
      ultimately show ?thesis by (rule_tac x = 0 in exI) (rule conjI)
    next
      case False
      have big: "\<forall>q\<in>set (x # xs). points q \<le> points (xs ! i)"
        using False mx by fastforce
      have small: "\<not> (\<forall>q\<in>set (x # xs). points q \<le> points ((x # xs) ! j))" if j: "j < Suc i" for j
      proof (cases j)
        case 0
        have "xs ! i \<in> set (x # xs)" using il by simp
        moreover have "\<not> points (xs ! i) \<le> points x" using False .
        ultimately show ?thesis unfolding 0 nth_Cons_0 by blast
      next
        case (Suc k)
        with j have "k < i" by simp
        with fst have "\<not> (\<forall>q\<in>set xs. points q \<le> points (xs ! k))" by blast
        then show ?thesis unfolding Suc nth_Cons_Suc by simp
      qed
      have "firstWhere (\<lambda>p. \<forall>q\<in>set (x # xs). points q \<le> points p) (x # xs) (Suc i)"
        unfolding firstWhere_def
      proof (intro conjI allI impI)
        show "Suc i < length (x # xs)" using il by simp
        show "\<forall>q\<in>set (x # xs). points q \<le> points ((x # xs) ! Suc i)"
          using big by simp
        fix j assume "j < Suc i"
        then show "\<not> (\<forall>q\<in>set (x # xs). points q \<le> points ((x # xs) ! j))" by (rule small)
      qed
      moreover have "hd (sort_key (\<lambda>p. - points p) (x # xs)) = (x # xs) ! Suc i"
        using hdnew False by simp
      ultimately show ?thesis by (rule_tac x = "Suc i" in exI) (rule conjI)
    qed
  qed
qed

lemma sort_desc_nonempty: "ps \<noteq> [] \<Longrightarrow> sort_key (\<lambda>p. - points p) ps \<noteq> []"
proof -
  assume "ps \<noteq> []"
  then obtain y ys where "ps = y # ys" by (cases ps) simp_all
  then show ?thesis by (simp add: insort_not_Nil)
qed

lemma find_exists_firstWhere:
  "(\<exists>x\<in>set xs. P x) \<Longrightarrow> \<exists>i. firstWhere P xs i \<and> find P xs = Some (xs ! i)"
proof -
  assume "\<exists>x\<in>set xs. P x"
  then have "find P xs \<noteq> None" unfolding find_None_iff by blast
  then obtain x where x: "find P xs = Some x" by blast
  then obtain i where "firstWhere P xs i" "x = xs ! i" unfolding find_firstWhere by blast
  with x show ?thesis by blast
qed

lemma find_none_below:
  "\<not> (\<exists>x\<in>set xs. P x) \<Longrightarrow> find P xs = None"
  unfolding find_None_iff by blast

subsection \<open>checkWinCondition\<close>

text \<open>
  C1 (as amended). \<open>checkWinCondition\<close> decides in a fixed order. (1) If some player has
  points at or above the threshold, the result is the id of the first such player of the
  list, whatever the step and whatever the points of the others. (2) Otherwise, if the
  step has reached the maximum and the list is not empty, the result is the id of the
  first player of the list whose points are the highest; on the empty list the result is
  \<open>null\<close>. (3) Otherwise, if exactly one player has positive points, the result is the id
  of that player. (4) Otherwise the result is \<open>null\<close>.
\<close>

theorem checkWinCondition_priority:
  "((\<exists>p\<in>set ps. winThr \<le> points p) \<longrightarrow>
      (\<exists>i. firstWhere (\<lambda>p. winThr \<le> points p) ps i \<and>
           checkWinCondition ps stp maxStps winThr = Some (id' (ps ! i)))) \<and>
   (\<not> (\<exists>p\<in>set ps. winThr \<le> points p) \<and> maxStps \<le> stp \<and> ps \<noteq> [] \<longrightarrow>
      (\<exists>i. firstWhere (\<lambda>p. \<forall>q\<in>set ps. points q \<le> points p) ps i \<and>
           checkWinCondition ps stp maxStps winThr = Some (id' (ps ! i)))) \<and>
   (maxStps \<le> stp \<and> ps = [] \<longrightarrow> checkWinCondition ps stp maxStps winThr = None) \<and>
   (\<not> (\<exists>p\<in>set ps. winThr \<le> points p) \<and> stp < maxStps \<and>
      (\<exists>i. onlyWhere (\<lambda>p. 0 < points p) ps i) \<longrightarrow>
      (\<exists>i. onlyWhere (\<lambda>p. 0 < points p) ps i \<and>
           checkWinCondition ps stp maxStps winThr = Some (id' (ps ! i)))) \<and>
   (\<not> (\<exists>p\<in>set ps. winThr \<le> points p) \<and> stp < maxStps \<and>
      \<not> (\<exists>i. onlyWhere (\<lambda>p. 0 < points p) ps i) \<longrightarrow>
      checkWinCondition ps stp maxStps winThr = None)"
proof (intro conjI impI)
  assume "\<exists>p\<in>set ps. winThr \<le> points p"
  then obtain i where "firstWhere (\<lambda>p. winThr \<le> points p) ps i"
    and "find (\<lambda>p. winThr \<le> points p) ps = Some (ps ! i)"
    using find_exists_firstWhere[of ps "\<lambda>p. winThr \<le> points p"] by blast
  then show "\<exists>i. firstWhere (\<lambda>p. winThr \<le> points p) ps i \<and>
           checkWinCondition ps stp maxStps winThr = Some (id' (ps ! i))"
    by (auto simp add: checkWinCondition_def)
next
  assume a: "\<not> (\<exists>p\<in>set ps. winThr \<le> points p) \<and> maxStps \<le> stp \<and> ps \<noteq> []"
  then have none: "find (\<lambda>p. winThr \<le> points p) ps = None" by (simp add: find_none_below)
  from a obtain i where fw: "firstWhere (\<lambda>p. \<forall>q\<in>set ps. points q \<le> points p) ps i"
    and hd: "hd (sort_key (\<lambda>p. - points p) ps) = ps ! i"
    using sort_desc_head[of ps] by blast
  from a obtain f t where s: "sort_key (\<lambda>p. - points p) ps = f # t"
    using sort_desc_nonempty[of ps] by (cases "sort_key (\<lambda>p. - points p) ps") simp_all
  with hd have "f = ps ! i" by simp
  then have "checkWinCondition ps stp maxStps winThr = Some (id' (ps ! i))"
    using none a s by (simp add: checkWinCondition_def)
  with fw show "\<exists>i. firstWhere (\<lambda>p. \<forall>q\<in>set ps. points q \<le> points p) ps i \<and>
           checkWinCondition ps stp maxStps winThr = Some (id' (ps ! i))" by blast
next
  assume "maxStps \<le> stp \<and> ps = []"
  then show "checkWinCondition ps stp maxStps winThr = None"
    by (simp add: checkWinCondition_def)
next
  assume a: "\<not> (\<exists>p\<in>set ps. winThr \<le> points p) \<and> stp < maxStps \<and>
      (\<exists>i. onlyWhere (\<lambda>p. 0 < points p) ps i)"
  then have none: "find (\<lambda>p. winThr \<le> points p) ps = None" by (simp add: find_none_below)
  from a obtain i where ow: "onlyWhere (\<lambda>p. 0 < points p) ps i" by blast
  then have "filter (\<lambda>p. 0 < points p) ps = [ps ! i]"
    using filter_single_onlyWhere[of "\<lambda>p. 0 < points p" ps "ps ! i"] by blast
  then have "checkWinCondition ps stp maxStps winThr = Some (id' (ps ! i))"
    using none a by (simp add: checkWinCondition_def)
  with ow show "\<exists>i. onlyWhere (\<lambda>p. 0 < points p) ps i \<and>
           checkWinCondition ps stp maxStps winThr = Some (id' (ps ! i))" by blast
next
  assume a: "\<not> (\<exists>p\<in>set ps. winThr \<le> points p) \<and> stp < maxStps \<and>
      \<not> (\<exists>i. onlyWhere (\<lambda>p. 0 < points p) ps i)"
  then have none: "find (\<lambda>p. winThr \<le> points p) ps = None" by (simp add: find_none_below)
  have ns: "filter (\<lambda>p. 0 < points p) ps \<noteq> [x]" for x
    using a filter_single_onlyWhere[of "\<lambda>p. 0 < points p" ps x] by blast
  show "checkWinCondition ps stp maxStps winThr = None"
  proof (cases "filter (\<lambda>p. 0 < points p) ps")
    case Nil
    then show ?thesis using none a by (simp add: checkWinCondition_def)
  next
    case (Cons y ys)
    with ns[of y] have "ys \<noteq> []" by auto
    then obtain z zs where "ys = z # zs" by (cases ys) simp_all
    with Cons show ?thesis using none a by (simp add: checkWinCondition_def)
  qed
qed

text \<open>
  C1 as stated fails on the empty list: with the step at the maximum there is no player
  whose id could be returned, and the result is \<open>null\<close>.
\<close>

theorem checkWinCondition_empty_counterexample:
  "checkWinCondition [] 10 10 150 = None"
  by (simp add: checkWinCondition_def)

text \<open>
  The five cases of C1 on concrete lists. In the first, the threshold wins over the
  step limit: the second player has more points, the first one is the first at or above
  the threshold.
\<close>

theorem checkWinCondition_priority_witness:
  "checkWinCondition [mkPlayer ''p1'' 150, mkPlayer ''p2'' 200] 10 10 150 = Some ''p1'' \<and>
   checkWinCondition [mkPlayer ''p1'' 120, mkPlayer ''p2'' 130, mkPlayer ''p3'' 130] 10 10 150
     = Some ''p2'' \<and>
   checkWinCondition [] 10 10 150 = None \<and>
   checkWinCondition [mkPlayer ''p1'' 0, mkPlayer ''p2'' 50] 3 10 150 = Some ''p2'' \<and>
   checkWinCondition [mkPlayer ''p1'' 100, mkPlayer ''p2'' 100] 3 10 150 = None"
  using checkWinCondition_priority[of "[mkPlayer ''p1'' 150, mkPlayer ''p2'' 200]" 150 10 10]
        checkWinCondition_priority[of "[mkPlayer ''p1'' 120, mkPlayer ''p2'' 130, mkPlayer ''p3'' 130]" 150 10 10]
        checkWinCondition_priority[of "[]" 150 10 10]
        checkWinCondition_priority[of "[mkPlayer ''p1'' 0, mkPlayer ''p2'' 50]" 150 10 3]
        checkWinCondition_priority[of "[mkPlayer ''p1'' 100, mkPlayer ''p2'' 100]" 150 10 3]
  by (simp add: checkWinCondition_def mkPlayer_def)

subsection \<open>resolveRound\<close>

text \<open>
  C2 (as amended). \<open>resolveRound\<close> keeps the length of the list and maps the player at
  each position as follows: a player whose decision is LEAVE is unchanged; a player whose
  decision is STAY gets \<open>max 0 (points + 5)\<close> on a successful roll and
  \<open>max 0 (points - 10)\<close> on a failed one; a player without a decision is unchanged. So
  the points of a player who stays are never negative in the result, and the points of any
  player that were not negative before are not negative after.
\<close>

lemma resolveRound_nth:
  "i < length ps \<Longrightarrow>
   resolveRound ps ds roll ! i =
     (if ds (id' (ps ! i)) = Some STAY
      then (ps ! i)\<lparr> points := max 0 (points (ps ! i) + (if success roll then 5 else - 10)) \<rparr>
      else ps ! i)"
  by (simp add: resolveRound_def Let_def SUCCESS_REWARD_def FAILURE_PENALTY_def)

theorem resolveRound_points:
  "length (resolveRound ps ds roll) = length ps \<and>
   (\<forall>i<length ps.
      (ds (id' (ps ! i)) = Some LEAVE \<longrightarrow> resolveRound ps ds roll ! i = ps ! i) \<and>
      (ds (id' (ps ! i)) = Some STAY \<longrightarrow>
         resolveRound ps ds roll ! i =
           (ps ! i)\<lparr> points := max 0 (points (ps ! i) + (if success roll then 5 else - 10)) \<rparr>) \<and>
      (ds (id' (ps ! i)) = None \<longrightarrow> resolveRound ps ds roll ! i = ps ! i) \<and>
      (ds (id' (ps ! i)) = Some STAY \<or> 0 \<le> points (ps ! i) \<longrightarrow>
         0 \<le> points (resolveRound ps ds roll ! i)))"
proof (intro conjI allI impI)
  show "length (resolveRound ps ds roll) = length ps"
    by (simp add: resolveRound_def)
next
  fix i assume "i < length ps" "ds (id' (ps ! i)) = Some LEAVE"
  then show "resolveRound ps ds roll ! i = ps ! i" by (simp add: resolveRound_nth)
next
  fix i assume "i < length ps" "ds (id' (ps ! i)) = Some STAY"
  then show "resolveRound ps ds roll ! i =
           (ps ! i)\<lparr> points := max 0 (points (ps ! i) + (if success roll then 5 else - 10)) \<rparr>"
    by (simp add: resolveRound_nth)
next
  fix i assume "i < length ps" "ds (id' (ps ! i)) = None"
  then show "resolveRound ps ds roll ! i = ps ! i" by (simp add: resolveRound_nth)
next
  fix i assume "i < length ps" "ds (id' (ps ! i)) = Some STAY \<or> 0 \<le> points (ps ! i)"
  then show "0 \<le> points (resolveRound ps ds roll ! i)"
    by (auto simp add: resolveRound_nth)
qed

text \<open>
  C2 as stated fails for a player who enters the round with negative points and leaves:
  the player is returned unchanged, with the negative points.
\<close>

theorem resolveRound_negative_counterexample:
  "points (resolveRound [negPlayer] [''p1'' \<mapsto> LEAVE]
             \<lparr> success = False, value' = 20, timestamp = 0 \<rparr> ! 0) = - 5"
  by (simp add: resolveRound_def negPlayer_def)

text \<open>C2 on one player: a stay that is clamped, a stay that gains, a leave, no decision.\<close>

theorem resolveRound_points_witness:
  "points (resolveRound [negPlayer] [''p1'' \<mapsto> STAY]
             \<lparr> success = False, value' = 20, timestamp = 0 \<rparr> ! 0) = 0 \<and>
   points (resolveRound [negPlayer\<lparr> points := 100 \<rparr>] [''p1'' \<mapsto> STAY]
             \<lparr> success = True, value' = 75, timestamp = 0 \<rparr> ! 0) = 105 \<and>
   points (resolveRound [negPlayer\<lparr> points := 100 \<rparr>] [''p1'' \<mapsto> LEAVE]
             \<lparr> success = False, value' = 20, timestamp = 0 \<rparr> ! 0) = 100 \<and>
   points (resolveRound [negPlayer\<lparr> points := 100 \<rparr>] Map.empty
             \<lparr> success = False, value' = 20, timestamp = 0 \<rparr> ! 0) = 100"
  using resolveRound_points[of "[negPlayer]" "[''p1'' \<mapsto> STAY]"
          "\<lparr> success = False, value' = 20, timestamp = 0 \<rparr>"]
        resolveRound_points[of "[negPlayer\<lparr> points := 100 \<rparr>]" "[''p1'' \<mapsto> STAY]"
          "\<lparr> success = True, value' = 75, timestamp = 0 \<rparr>"]
        resolveRound_points[of "[negPlayer\<lparr> points := 100 \<rparr>]" "[''p1'' \<mapsto> LEAVE]"
          "\<lparr> success = False, value' = 20, timestamp = 0 \<rparr>"]
        resolveRound_points[of "[negPlayer\<lparr> points := 100 \<rparr>]" "Map.empty"
          "\<lparr> success = False, value' = 20, timestamp = 0 \<rparr>"]
  by (simp add: negPlayer_def)

text \<open>
  C10. \<open>resolveRound\<close> keeps the length and the order of the list, and at every position
  the id, the secret, the nickname and the flags \<open>ready\<close> and \<open>connected\<close> of the player.
\<close>

theorem resolveRound_frame:
  "length (resolveRound ps ds roll) = length ps \<and>
   map id' (resolveRound ps ds roll) = map id' ps \<and>
   map secret (resolveRound ps ds roll) = map secret ps \<and>
   map nickname (resolveRound ps ds roll) = map nickname ps \<and>
   map ready (resolveRound ps ds roll) = map ready ps \<and>
   map connected (resolveRound ps ds roll) = map connected ps"
  by (simp add: resolveRound_def Let_def)

subsection \<open>rollChallenge\<close>

text \<open>
  C4. Every roll has a value between 1 and 100, is a success exactly when the value is at
  least 40, and the value is the random byte modulo 100, plus 1.
\<close>

theorem rollChallenge_range:
  "1 \<le> value' (rollChallenge byte now) \<and> value' (rollChallenge byte now) \<le> 100 \<and>
   success (rollChallenge byte now) = (value' (rollChallenge byte now) \<ge> 40) \<and>
   value' (rollChallenge byte now) = int (unat byte mod 100) + 1"
proof -
  have "unat byte mod 100 < 100" by simp
  then show ?thesis
    by (simp add: rollChallenge_def Let_def SUCCESS_THRESHOLD_def)
qed

subsection \<open>collectStakes\<close>

text \<open>
  C6. \<open>collectStakes\<close> returns the pot \<open>stake * length players\<close> and every player with the
  points lowered by the stake, without a clamp at zero. It holds for every list, the
  empty one included.
\<close>

theorem collectStakes_pot:
  "collectStakes ps stk =
     (map (\<lambda>p. p\<lparr> points := points p - stk \<rparr>) ps, stk * int (length ps))"
  by (simp add: collectStakes_def Let_def)

subsection \<open>getNextCaptain\<close>

lemma getNextCaptain_in_range:
  assumes "0 < n" "0 \<le> i" "i < n"
  shows "getNextCaptain i n = Some ((i + 1) mod n)"
  using assms by (simp add: getNextCaptain_def js_rem_def sgn_if)

lemma captainAfter_mod:
  assumes "0 < n"
  shows "0 \<le> i \<Longrightarrow> i < n \<Longrightarrow> captainAfter k i n = Some ((i + int k) mod n)"
proof (induction k arbitrary: i)
  case 0
  then show ?case by simp
next
  case (Suc k)
  have r: "0 \<le> (i + 1) mod n" "(i + 1) mod n < n" using assms by simp_all
  have "captainAfter (Suc k) i n = captainAfter k ((i + 1) mod n) n"
    using getNextCaptain_in_range[OF assms Suc.prems] by simp
  also have "\<dots> = Some (((i + 1) mod n + int k) mod n)"
    using Suc.IH[OF r] .
  finally have a: "captainAfter (Suc k) i n = Some (((i + 1) mod n + int k) mod n)" .
  have "((i + 1) mod n + int k) mod n = (i + 1 + int k) mod n"
    by (rule mod_add_left_eq)
  moreover have "i + 1 + int k = i + int (Suc k)" by simp
  ultimately show ?case using a by simp
qed

lemma captainAfter_period:
  assumes "0 < n" "0 \<le> i" "i < n"
  shows "(captainAfter k i n = Some i) = (nat n dvd k)"
proof -
  have "(captainAfter k i n = Some i) = ((i + int k) mod n = i)"
    using captainAfter_mod[OF assms] by simp
  also have "\<dots> = ((i + int k) mod n = i mod n)" using assms by simp
  also have "\<dots> = (n dvd (i + int k) - i)" by (rule mod_eq_dvd_iff)
  also have "\<dots> = (n dvd int k)" by simp
  also have "\<dots> = (int (nat n) dvd int k)" using assms by simp
  also have "\<dots> = (nat n dvd k)" by (rule int_dvd_int_iff)
  finally show ?thesis .
qed

lemma getNextCaptain_bij:
  assumes "0 < n"
  shows "bij_betw (\<lambda>j. the (getNextCaptain j n)) {0..<n} {0..<n}"
proof (rule bij_betw_byWitness[where f' = "\<lambda>j. (j - 1) mod n"])
  show "\<forall>a\<in>{0..<n}. (the (getNextCaptain a n) - 1) mod n = a"
    using assms by (simp add: getNextCaptain_in_range mod_diff_left_eq)
  show "\<forall>a'\<in>{0..<n}. the (getNextCaptain ((a' - 1) mod n) n) = a'"
    using assms by (simp add: getNextCaptain_in_range mod_add_left_eq)
  show "(\<lambda>j. the (getNextCaptain j n)) ` {0..<n} \<subseteq> {0..<n}"
    using assms by (auto simp add: getNextCaptain_in_range)
  show "(\<lambda>j. (j - 1) mod n) ` {0..<n} \<subseteq> {0..<n}"
    using assms by auto
qed

text \<open>
  C9. For a positive player count \<open>n\<close>, \<open>getNextCaptain\<close> is \<open>(i + 1) mod n\<close> on the
  indices \<open>0 \<le> i < n\<close>, its result is again such an index, it is a bijection on these
  indices, and \<open>n\<close> applications lead back to the index they started from; the number of
  applications that lead back is always a multiple of \<open>n\<close>, so the period is \<open>n\<close>.
\<close>

theorem getNextCaptain_cycle:
  assumes "0 < n" "0 \<le> i" "i < n"
  shows "getNextCaptain i n = Some ((i + 1) mod n) \<and>
         0 \<le> (i + 1) mod n \<and> (i + 1) mod n < n \<and>
         bij_betw (\<lambda>j. the (getNextCaptain j n)) {0..<n} {0..<n} \<and>
         captainAfter (nat n) i n = Some i \<and>
         (\<forall>k. (captainAfter k i n = Some i) = (nat n dvd k))"
proof -
  have "captainAfter (nat n) i n = Some i"
    using captainAfter_period[OF assms, of "nat n"] by simp
  then show ?thesis
    using assms getNextCaptain_in_range[OF assms] getNextCaptain_bij[OF assms(1)]
      captainAfter_period[OF assms]
    by simp
qed

text \<open>C9 with four players: the captain after the last index is the first one.\<close>

theorem getNextCaptain_cycle_witness:
  "getNextCaptain 3 4 = Some 0 \<and> captainAfter 4 3 4 = Some 3 \<and> captainAfter 2 3 4 \<noteq> Some 3"
  using getNextCaptain_cycle[of 4 3] by simp

section \<open>Properties of the room actor\<close>

subsection \<open>The invariant holds in every reachable state\<close>

lemma logEvent_fields [simp]:
  "roomToken (logEvent ty d now st) = roomToken st"
  "status (logEvent ty d now st) = status st"
  "stake (logEvent ty d now st) = stake st"
  "pot (logEvent ty d now st) = pot st"
  "maxPlayers (logEvent ty d now st) = maxPlayers st"
  "players (logEvent ty d now st) = players st"
  "hostId (logEvent ty d now st) = hostId st"
  "captainIndex (logEvent ty d now st) = captainIndex st"
  "phase (logEvent ty d now st) = phase st"
  "step (logEvent ty d now st) = step st"
  "maxSteps (logEvent ty d now st) = maxSteps st"
  "winThreshold (logEvent ty d now st) = winThreshold st"
  "lastRoll (logEvent ty d now st) = lastRoll st"
  "decisions (logEvent ty d now st) = decisions st"
  "winnerId (logEvent ty d now st) = winnerId st"
  by (simp_all add: logEvent_def Let_def)

lemma roomInv_logEvent [simp]: "roomInv (logEvent ty d now st) = roomInv st"
  by (simp add: roomInv_def)

lemma list_all_updateFirst:
  "list_all Q xs \<Longrightarrow> (\<And>x. Q x \<Longrightarrow> Q (f x)) \<Longrightarrow> list_all Q (updateFirst P f xs)"
  by (induction xs) auto

lemma resolveRound_nonneg:
  "list_all (\<lambda>p. 0 \<le> points p) ps \<Longrightarrow> list_all (\<lambda>p. 0 \<le> points p) (resolveRound ps ds roll)"
  by (induction ps) (auto simp add: resolveRound_def Let_def)

lemma distributePot_nonneg:
  "0 \<le> pt \<Longrightarrow> list_all (\<lambda>p. 0 \<le> points p) ps \<Longrightarrow>
   list_all (\<lambda>p. 0 \<le> points p) (distributePot ps w pt)"
  by (induction ps) (auto simp add: distributePot_def)

lemma collectStakes_nonneg:
  "stk \<le> MAX_STAKE \<Longrightarrow> list_all (\<lambda>p. points p = STARTING_POINTS) ps \<Longrightarrow>
   list_all (\<lambda>p. 0 \<le> points p) (fst (collectStakes ps stk))"
  by (induction ps) (auto simp add: collectStakes_def Let_def MAX_STAKE_def STARTING_POINTS_def)

lemma collectStakes_pot_nonneg:
  "MIN_STAKE \<le> stk \<Longrightarrow> 0 \<le> snd (collectStakes ps stk)"
  by (simp add: collectStakes_def Let_def MIN_STAKE_def)

lemma roomInv_create: "roomInvOpt s \<Longrightarrow> roomInvOpt (snd (handleCreate clock stk mx token s))"
  by (auto simp add: handleCreate_def roomInvOpt_def roomInv_def createInitialState_def
      split: option.splits)

lemma roomInv_join:
  "roomInvOpt s \<Longrightarrow> roomInvOpt (snd (handleJoin clock nick idArray secretArray s))"
  by (auto simp add: handleJoin_def roomInvOpt_def roomInv_def Let_def STARTING_POINTS_def
      split: option.splits)

lemma roomInv_ready: "roomInvOpt s \<Longrightarrow> roomInvOpt (snd (handleReady clock pid sec s))"
  by (auto simp add: handleReady_def roomInvOpt_def roomInv_def Let_def list_all_updateFirst
      split: option.splits)

lemma roomInv_start: "roomInvOpt s \<Longrightarrow> roomInvOpt (snd (handleStart clock pid sec s))"
  by (auto simp add: handleStart_def roomInvOpt_def roomInv_def Let_def
      collectStakes_nonneg collectStakes_pot_nonneg split: option.splits)

lemma roomInv_resolve: "roomInvOpt s \<Longrightarrow> roomInvOpt (resolveAndAdvance clock s)"
  by (auto simp add: resolveAndAdvance_def roomInvOpt_def roomInv_def Let_def
      resolveRound_nonneg distributePot_nonneg split: option.splits)

lemma roomInv_roll_update:
  "roomInv st \<Longrightarrow> status st = PLAYING \<Longrightarrow>
   roomInv (st\<lparr> lastRoll := r, decisions := ds, phase := ph \<rparr>)"
  by (simp add: roomInv_def)

lemma roomInv_decision_update:
  "roomInv st \<Longrightarrow> roomInv (st\<lparr> decisions := ds \<rparr>)"
  by (simp add: roomInv_def)

lemma roomInvOpt_Some: "roomInvOpt (Some st) = roomInv st"
  by (simp add: roomInvOpt_def)

lemma roomInv_action:
  "roomInvOpt s \<Longrightarrow> roomInvOpt (snd (handleAction clock pid sec ty byte s))"
proof (cases s)
  case None
  then show ?thesis by (simp add: handleAction_def roomInvOpt_def)
next
  case (Some st)
  assume "roomInvOpt s"
  with Some have inv: "roomInv st" by (simp add: roomInvOpt_def)
  show ?thesis
    unfolding Some handleAction_def
    using inv
    by (auto simp add: Let_def roomInvOpt_Some roomInv_roll_update roomInv_decision_update
        simp del: fun_upd_apply
        split: option.splits action_type.splits intro!: roomInv_resolve)
qed

lemma roomInv_connect: "roomInvOpt s \<Longrightarrow> roomInvOpt (handleWebSocket pid sec s)"
  by (auto simp add: handleWebSocket_def roomInvOpt_def roomInv_def list_all_updateFirst
      split: option.splits)

lemma roomInv_close: "roomInvOpt s \<Longrightarrow> roomInvOpt (socketClosed pid s)"
  by (auto simp add: socketClosed_def roomInvOpt_def roomInv_def list_all_updateFirst
      split: option.splits)

lemma roomInv_step: "roomInvOpt s \<Longrightarrow> roomInvOpt (roomStep clock req s)"
  by (cases req)
     (simp_all add: roomInv_create roomInv_join roomInv_ready roomInv_start roomInv_action
        roomInv_resolve roomInv_connect roomInv_close)

lemma reachable_roomInv: "reachable s \<Longrightarrow> roomInvOpt s"
  by (induction rule: reachable.induct) (simp_all add: roomInvOpt_def roomInv_step[unfolded roomInvOpt_def])

lemma roomInv_reachable_Some: "reachable (Some st) \<Longrightarrow> roomInv st"
  using reachable_roomInv[of "Some st"] by (simp add: roomInvOpt_def)

subsection \<open>The concrete game\<close>

lemma creds_eval:
  "aliceId = ''a100172b3c4d5e6f''"
  "aliceSecret = ''0102030405060708090a0b0c0d0e0f10''"
  "bobId = ''b0b1ff2b3c4d5e6f''"
  "bobSecret = ''f1f2f3f4f5f6f7f8f9fafbfcfdfeff00''"
  by (simp_all add: aliceId_def aliceSecret_def bobId_def bobSecret_def
      generatePlayerCredentials_def aliceIdArray_def aliceSecretArray_def
      bobIdArray_def bobSecretArray_def byteHex_def hexDigit_def)

lemma lobby_run:
  "\<exists>st. runRequests clock0 (lobbyRequests 10) None = Some st \<and> status st = LOBBY \<and>
        stake st = 10 \<and> map points (players st) = [100, 100] \<and>
        map id' (players st) = [aliceId, bobId] \<and> hostId st = aliceId \<and>
        map secret (players st) = [aliceSecret, bobSecret] \<and>
        map ready (players st) = [True, True]"
  by (simp add: lobbyRequests_def handleCreate_def handleJoin_def handleReady_def
      handleWebSocket_def createInitialState_def logEvent_def Let_def GAME_CONFIG
      jsonResponse_def given_def validatePlayer_def trim_def isWhiteSpace_def
      toLowerCase_def lowerChar_def creds_eval generatePlayerCredentials_def
      aliceIdArray_def aliceSecretArray_def bobIdArray_def bobSecretArray_def
      byteHex_def hexDigit_def)

lemmas room_eval =
  handleCreate_def handleJoin_def handleReady_def handleStart_def handleAction_def
  handleWebSocket_def socketClosed_def resolveAndAdvance_def captainOf_def
  createInitialState_def logEvent_def Let_def GAME_CONFIG jsonResponse_def given_def
  validatePlayer_def trim_def isWhiteSpace_def toLowerCase_def lowerChar_def
  generatePlayerCredentials_def byteHex_def hexDigit_def collectStakes_def
  rollChallenge_def resolveRound_def checkWinCondition_def distributePot_def
  getNextCaptain_def js_rem_def allDecisionsMade_def
  aliceIdArray_def aliceSecretArray_def bobIdArray_def bobSecretArray_def creds_eval

lemma reachable_runRequests: "reachable s \<Longrightarrow> reachable (runRequests clock reqs s)"
  by (induction reqs arbitrary: s) (simp_all add: reachable.step)

lemma decision_run:
  "\<exists>st. runRequests clock0 decisionRequests None = Some st \<and> status st = PLAYING \<and>
        phase st = DECISIONS \<and> map points (players st) = [90, 90] \<and> pot st = 20 \<and>
        map id' (players st) = [aliceId, bobId] \<and>
        map secret (players st) = [aliceSecret, bobSecret] \<and>
        captainIndex st = Some 0 \<and> winnerId st = None"
  by (simp add: decisionRequests_def lobbyRequests_def room_eval)

lemma game_run:
  "\<exists>st. runRequests clock0 gameRequests None = Some st \<and> status st = FINISHED \<and>
        winnerId st = Some bobId \<and> map points (players st) = [0, 115] \<and> pot st = 0 \<and>
        phase st = DECISIONS \<and> captainIndex st = Some 1 \<and>
        map id' (players st) = [aliceId, bobId]"
  by (simp add: gameRequests_def aliceRound_def bobRound_def lobbyRequests_def room_eval)


subsection \<open>Points\<close>

text \<open>
  C3. In every room state that the requests of the actor can reach (create, join, ready,
  start, action, the internal resolveAndAdvance, and the opening and closing of sockets),
  no player has negative points. Along the way: the stake lies between 5 and 50, the pot
  is not negative, and as long as the room is in the lobby every player holds the 100
  starting points, so the one deduction of the stake at the start leaves at least 50.
\<close>

theorem points_never_negative:
  assumes "reachable (Some st)"
  shows "(\<forall>p\<in>set (players st). 0 \<le> points p) \<and> 5 \<le> stake st \<and> stake st \<le> 50 \<and>
         0 \<le> pot st \<and>
         (status st = LOBBY \<longrightarrow> (\<forall>p\<in>set (players st). points p = 100))"
  using roomInv_reachable_Some[OF assms]
  by (simp add: roomInv_def list_all_iff GAME_CONFIG)

text \<open>
  C3 on the state at the end of the concrete game, where the last failed roll takes Alice
  from 5 points to 0 and Bob receives the pot.
\<close>

theorem points_never_negative_witness:
  "\<exists>st. runRequests clock0 gameRequests None = Some st \<and> reachable (Some st) \<and>
        map points (players st) = [0, 115] \<and> (\<forall>p\<in>set (players st). 0 \<le> points p)"
proof -
  obtain st where run: "runRequests clock0 gameRequests None = Some st"
    and pts: "map points (players st) = [0, 115]"
    using game_run by auto
  have "reachable (runRequests clock0 gameRequests None)"
    by (rule reachable_runRequests) (rule reachable.initial)
  then have r: "reachable (Some st)" by (simp add: run)
  from points_never_negative[OF r] have "\<forall>p\<in>set (players st). 0 \<le> points p" by simp
  with run r pts show ?thesis by auto
qed

subsection \<open>Winner and status\<close>

text \<open>
  C7. In every reachable room state a winner is recorded if and only if the status is
  FINISHED; the initial state has no winner and the status LOBBY.
\<close>

theorem winner_iff_finished:
  assumes "reachable (Some st)"
  shows "(winnerId st \<noteq> None) = (status st = FINISHED) \<and>
         winnerId (createInitialState token stk mx) = None \<and>
         status (createInitialState token stk mx) = LOBBY"
  using roomInv_reachable_Some[OF assms]
  by (simp add: roomInv_def createInitialState_def)

text \<open>
  C7 on two reachable states: the end of the concrete game, with Bob as the winner and
  the status FINISHED, and the state after the first roll, without a winner.
\<close>

theorem winner_iff_finished_witness:
  "(\<exists>st. runRequests clock0 gameRequests None = Some st \<and> reachable (Some st) \<and>
         winnerId st = Some bobId \<and> status st = FINISHED) \<and>
   (\<exists>st. runRequests clock0 decisionRequests None = Some st \<and> reachable (Some st) \<and>
         winnerId st = None \<and> status st \<noteq> FINISHED)"
proof -
  obtain st where run: "runRequests clock0 gameRequests None = Some st"
    and w: "winnerId st = Some bobId"
    using game_run by auto
  have "reachable (runRequests clock0 gameRequests None)"
    by (rule reachable_runRequests) (rule reachable.initial)
  then have r: "reachable (Some st)" by (simp add: run)
  from winner_iff_finished[OF r] w have f: "status st = FINISHED" by simp
  obtain st' where run': "runRequests clock0 decisionRequests None = Some st'"
    and s': "status st' = PLAYING"
    using decision_run by auto
  have "reachable (runRequests clock0 decisionRequests None)"
    by (rule reachable_runRequests) (rule reachable.initial)
  then have r': "reachable (Some st')" by (simp add: run')
  from winner_iff_finished[OF r'] s' have w': "winnerId st' = None" by simp
  from run r w f run' r' w' s' show ?thesis by auto
qed

subsection \<open>start\<close>

text \<open>
  C5. A start by the host with valid credentials, in the lobby, with at least two players
  who are all ready, succeeds: the pot becomes the stake times the number of players, the
  points of every player go down by the stake, the status becomes PLAYING, the phase
  CAPTAIN_TURN, the step 1, the captain index 0, and the decisions are empty. With a
  stake of 10 and two players at 100 points, the pot becomes 20 and both players have 90
  points.
\<close>

theorem handleStart_success:
  assumes "status st = LOBBY" "pid = hostId st" "pid \<noteq> []" "sec \<noteq> []"
    and "validatePlayer st pid sec \<noteq> None"
    and "2 \<le> length (players st)" "list_all ready (players st)"
  shows "\<exists>st'. handleStart clock (Some pid) (Some sec) (Some st)
                 = (jsonResponse SuccessBody 200, Some st') \<and>
               pot st' = stake st * int (length (players st)) \<and>
               players st' = map (\<lambda>p. p\<lparr> points := points p - stake st \<rparr>) (players st) \<and>
               status st' = PLAYING \<and> phase st' = CAPTAIN_TURN \<and> step st' = 1 \<and>
               captainIndex st' = Some 0 \<and> decisions st' = Map.empty \<and>
               (stake st = 10 \<and> map points (players st) = [100, 100] \<longrightarrow>
                  pot st' = 20 \<and> map points (players st') = [90, 90])"
proof -
  obtain p where v: "validatePlayer st pid sec = Some p" using assms(5) by blast
  have n: "\<not> int (length (players st)) < MIN_PLAYERS" using assms(6) by (simp add: MIN_PLAYERS_def)
  have len: "map points (players st) = [100, 100] \<Longrightarrow> length (players st) = 2"
    by (metis length_map length_Cons list.size(3) numeral_2_eq_2)
  have pts: "map points (map (\<lambda>p. p\<lparr> points := points p - stake st \<rparr>) (players st))
               = map (\<lambda>x. x - stake st) (map points (players st))"
    by (simp add: comp_def)
  show ?thesis
    using assms(1-4,7) v n len pts
    by (auto simp add: handleStart_def given_def Let_def collectStakes_def simp del: map_map)
qed

text \<open>
  C5 on Scenario 1, run from the empty actor: create with stake 10, Alice and Bob join
  and get ready, Alice starts.
\<close>

theorem handleStart_success_witness:
  "\<exists>st st'. runRequests clock0 (lobbyRequests 10) None = Some st \<and>
     handleStart clock0 (Some aliceId) (Some aliceSecret) (Some st)
       = (jsonResponse SuccessBody 200, Some st') \<and>
     pot st' = 20 \<and> map points (players st') = [90, 90] \<and> status st' = PLAYING \<and>
     phase st' = CAPTAIN_TURN \<and> captainIndex st' = Some 0"
proof -
  obtain st where run: "runRequests clock0 (lobbyRequests 10) None = Some st"
    and f: "status st = LOBBY" "stake st = 10" "map points (players st) = [100, 100]"
      "map id' (players st) = [aliceId, bobId]" "hostId st = aliceId"
      "map secret (players st) = [aliceSecret, bobSecret]"
      "map ready (players st) = [True, True]"
    using lobby_run by auto
  from f(4) f(6) f(7) obtain a b where ps: "players st = [a, b]" and
    ab: "id' a = aliceId" "secret a = aliceSecret" "ready a" "ready b"
    by (cases "players st"; cases "tl (players st)"; auto)
  have h: "status st = LOBBY" "aliceId = hostId st" "aliceId \<noteq> []" "aliceSecret \<noteq> []"
    "validatePlayer st aliceId aliceSecret \<noteq> None" "2 \<le> length (players st)"
    "list_all ready (players st)"
    using f ps ab by (simp_all add: validatePlayer_def creds_eval)
  from handleStart_success[OF h, of clock0] f(2,3) run show ?thesis by auto
qed

subsection \<open>A decision sent by the captain\<close>




end
